theory Spec2Isabelle
  imports Main "HOL-Library.Word" "HOL-Library.Sublist"
begin

section \<open>Build conditions (internal/controller/build/controller_conditions.go)\<close>

subsection \<open>Data\<close>

text \<open>
  \<^verbatim>\<open>metav1.ConditionStatus\<close> with its three constants, and \<^verbatim>\<open>metav1.Time\<close> as a
  number of clock ticks. Every call of \<^verbatim>\<open>metav1.Now()\<close> in the source is an explicit
  argument \<open>now\<close> of the function that makes the call.
\<close>

datatype ConditionStatus = ConditionTrue | ConditionFalse | ConditionUnknown

type_synonym Time = nat

type_synonym ConditionType = string

type_synonym ConditionReason = string

text \<open>\<^verbatim>\<open>metav1.Condition\<close>; \<open>ObservedGeneration\<close> is an \<^verbatim>\<open>int64\<close>.\<close>

record Condition =
  Type :: string
  Status :: ConditionStatus
  ObservedGeneration :: "64 word"
  LastTransitionTime :: Time
  Reason :: string
  Message :: string

text \<open>
  The part of \<^verbatim>\<open>choreov1.Build\<close> the controller touches: \<^verbatim>\<open>build.Generation\<close>,
  \<^verbatim>\<open>build.Status.Conditions\<close> and \<^verbatim>\<open>build.Status.ImageStatus.Image\<close>. The functions
  below take the build by value and return the updated build; the pointer
  \<^verbatim>\<open>build\<close> itself is taken to be valid.
\<close>

record ImageStatus =
  Image :: string

record BuildStatus =
  Conditions :: "Condition list"
  ImageStatus :: ImageStatus

record Build =
  Generation :: "64 word"
  Status_build :: BuildStatus

text \<open>
  \<^verbatim>\<open>argoproj.Parameter\<close> and \<^verbatim>\<open>argoproj.Outputs\<close>: \<open>Value\<close> is a \<^verbatim>\<open>*string\<close>, \<open>None\<close> is
  the nil pointer.
\<close>

record Parameter =
  Name :: string
  Value :: "string option"

record Outputs =
  Parameters :: "Parameter list"

text \<open>A run-time panic of the Go program.\<close>

datatype panic = NilPointerDereference

subsection \<open>Constants for condition types and reasons\<close>

abbreviation ConditionInitialized :: ConditionType where
  "ConditionInitialized \<equiv> ''Initialized''"

abbreviation ConditionCloneSucceeded :: ConditionType where
  "ConditionCloneSucceeded \<equiv> ''CloneSucceeded''"

abbreviation ConditionBuildSucceeded :: ConditionType where
  "ConditionBuildSucceeded \<equiv> ''BuildSucceeded''"

abbreviation ConditionPushSucceeded :: ConditionType where
  "ConditionPushSucceeded \<equiv> ''PushSucceeded''"

abbreviation ConditionCompleted :: ConditionType where
  "ConditionCompleted \<equiv> ''Completed''"

abbreviation ConditionDeployableArtifactCreated :: ConditionType where
  "ConditionDeployableArtifactCreated \<equiv> ''DeployableArtifactCreated''"

abbreviation ConditionDeploymentApplied :: ConditionType where
  "ConditionDeploymentApplied \<equiv> ''DeploymentApplied''"

abbreviation ReasonWorkflowCreatedSuccessfully :: ConditionReason where
  "ReasonWorkflowCreatedSuccessfully \<equiv> ''WorkflowCreated''"

abbreviation ReasonCloneSucceeded :: ConditionReason where
  "ReasonCloneSucceeded \<equiv> ''CloneSourceCodeSucceeded''"

abbreviation ReasonCloneFailed :: ConditionReason where
  "ReasonCloneFailed \<equiv> ''CloneSourceCodeFailed''"

abbreviation ReasonBuildSucceeded :: ConditionReason where
  "ReasonBuildSucceeded \<equiv> ''BuildImageSucceeded''"

abbreviation ReasonBuildFailed :: ConditionReason where
  "ReasonBuildFailed \<equiv> ''BuildImageFailed''"

abbreviation ReasonPushSucceeded :: ConditionReason where
  "ReasonPushSucceeded \<equiv> ''PushImageSucceeded''"

abbreviation ReasonPushFailed :: ConditionReason where
  "ReasonPushFailed \<equiv> ''PushImageFailed''"

abbreviation ReasonWorkflowCompleted :: ConditionReason where
  "ReasonWorkflowCompleted \<equiv> ''BuildCompleted''"

abbreviation ReasonWorkflowFailed :: ConditionReason where
  "ReasonWorkflowFailed \<equiv> ''BuildFailed''"

abbreviation ReasonArtifactCreatedSuccessfully :: ConditionReason where
  "ReasonArtifactCreatedSuccessfully \<equiv> ''ArtifactCreationSuccessful''"

abbreviation ReasonAutoDeploymentFailed :: ConditionReason where
  "ReasonAutoDeploymentFailed \<equiv> ''DeploymentFailed''"

abbreviation ReasonAutoDeploymentApplied :: ConditionReason where
  "ReasonAutoDeploymentApplied \<equiv> ''DeploymentAppliedSuccessfully''"

subsection \<open>The condition model the controller calls into\<close>

text \<open>
  Modelled from the spec: \<^verbatim>\<open>controller.NewCondition\<close> (internal/controller) is called by
  the source and is not part of it. It builds a condition from the type, status,
  reason, message and generation it is given, stamped with the current time (the
  condition record of section 3 of the spec, with \<open>observedGeneration\<close> pinned to the
  generation passed in).
\<close>

definition NewCondition ::
  "Time \<Rightarrow> ConditionType \<Rightarrow> ConditionStatus \<Rightarrow> ConditionReason \<Rightarrow> string \<Rightarrow> 64 word
    \<Rightarrow> Condition" where
  "NewCondition now conditionType status reason message observedGeneration =
     \<lparr>Type = conditionType, Status = status, ObservedGeneration = observedGeneration,
      LastTransitionTime = now, Reason = reason, Message = message\<rparr>"

text \<open>
  Modelled from the spec: \<^verbatim>\<open>meta.SetStatusCondition\<close> and \<^verbatim>\<open>meta.FindStatusCondition\<close>
  (k8s.io/apimachinery) are called by the source and are not part of it. Section 4.4
  of the spec, \<open>setCondition\<close>: an upsert by type that replaces status, reason,
  message and observedGeneration and refreshes the transition timestamp only when
  the status value changes; a condition of a type not yet stored is appended.
  \<open>FindStatusCondition\<close> reads the stored condition of a type (the first one).
\<close>

definition overwriteCondition :: "Condition \<Rightarrow> Condition \<Rightarrow> Condition" where
  "overwriteCondition existingCondition newCondition =
     existingCondition\<lparr>
       Status := Status newCondition,
       LastTransitionTime :=
         (if Status existingCondition \<noteq> Status newCondition
          then LastTransitionTime newCondition
          else LastTransitionTime existingCondition),
       Reason := Reason newCondition,
       Message := Message newCondition,
       ObservedGeneration := ObservedGeneration newCondition\<rparr>"

fun SetStatusCondition :: "Condition list \<Rightarrow> Condition \<Rightarrow> Condition list" where
  "SetStatusCondition [] newCondition = [newCondition]"
| "SetStatusCondition (c # conditions) newCondition =
     (if Type c = Type newCondition
      then overwriteCondition c newCondition # conditions
      else c # SetStatusCondition conditions newCondition)"

fun FindStatusCondition :: "Condition list \<Rightarrow> string \<Rightarrow> Condition option" where
  "FindStatusCondition [] conditionType = None"
| "FindStatusCondition (c # conditions) conditionType =
     (if Type c = conditionType then Some c
      else FindStatusCondition conditions conditionType)"

text \<open>The call \<^verbatim>\<open>meta.SetStatusCondition(&build.Status.Conditions, c)\<close>.\<close>

definition setBuildCondition :: "Build \<Rightarrow> Condition \<Rightarrow> Build" where
  "setBuildCondition build c =
     build\<lparr>Status_build := (Status_build build)
       \<lparr>Conditions := SetStatusCondition (Conditions (Status_build build)) c\<rparr>\<rparr>"

subsection \<open>Condition constructors\<close>

definition NewWorkflowInitializedCondition :: "Time \<Rightarrow> 64 word \<Rightarrow> Condition" where
  "NewWorkflowInitializedCondition now generation =
     NewCondition now ConditionInitialized ConditionTrue ReasonWorkflowCreatedSuccessfully
       ''Workflow was created in the cluster.'' generation"

definition NewDeployableArtifactCreatedCondition :: "Time \<Rightarrow> 64 word \<Rightarrow> Condition" where
  "NewDeployableArtifactCreatedCondition now generation =
     NewCondition now ConditionDeployableArtifactCreated ConditionTrue
       ReasonArtifactCreatedSuccessfully
       ''Successfully created a deployable artifact for the build.'' generation"

definition NewAutoDeploymentFailedCondition :: "Time \<Rightarrow> 64 word \<Rightarrow> Condition" where
  "NewAutoDeploymentFailedCondition now generation =
     NewCondition now ConditionDeploymentApplied ConditionFalse ReasonAutoDeploymentFailed
       ''Deployment configuration failed.'' generation"

definition NewAutoDeploymentSuccessfulCondition :: "Time \<Rightarrow> 64 word \<Rightarrow> Condition" where
  "NewAutoDeploymentSuccessfulCondition now generation =
     NewCondition now ConditionDeploymentApplied ConditionTrue ReasonAutoDeploymentApplied
       ''Successfully configured the deployment.'' generation"

subsection \<open>Step outcomes\<close>

text \<open>
  The descriptor tables are Go maps from condition type to a struct of reason and
  message. Indexing a Go map with a key it does not hold gives the zero struct, here
  the pair of empty strings: \<open>descriptor\<close> is that indexing.
\<close>

definition successDescriptors :: "ConditionType \<rightharpoonup> ConditionReason \<times> string" where
  "successDescriptors =
     [ConditionCloneSucceeded \<mapsto> (ReasonCloneSucceeded, ''Source code cloning was successful.''),
      ConditionBuildSucceeded \<mapsto>
        (ReasonBuildSucceeded, ''Building the source code was successful.''),
      ConditionPushSucceeded \<mapsto>
        (ReasonPushSucceeded, ''Pushing the built image to the registry was successful.'')]"

definition failureDescriptors :: "ConditionType \<rightharpoonup> ConditionReason \<times> string" where
  "failureDescriptors =
     [ConditionCloneSucceeded \<mapsto> (ReasonCloneFailed, ''Source code cloning failed.''),
      ConditionBuildSucceeded \<mapsto> (ReasonBuildFailed, ''Building the source code failed.''),
      ConditionPushSucceeded \<mapsto>
        (ReasonPushFailed, ''Pushing the built image to the registry failed.'')]"

definition descriptor ::
  "(ConditionType \<rightharpoonup> ConditionReason \<times> string) \<Rightarrow> ConditionType
    \<Rightarrow> ConditionReason \<times> string" where
  "descriptor table conditionType =
     (case table conditionType of None \<Rightarrow> ('''', '''') | Some d \<Rightarrow> d)"

definition markStepAsSucceeded :: "Build \<Rightarrow> ConditionType \<Rightarrow> Time \<Rightarrow> Build" where
  "markStepAsSucceeded build conditionType now =
     setBuildCondition build
       (NewCondition now conditionType ConditionTrue
          (fst (descriptor successDescriptors conditionType))
          (snd (descriptor successDescriptors conditionType))
          (Generation build))"

text \<open>Two conditions are built, so the clock is read twice.\<close>

definition markStepAsFailed :: "Build \<Rightarrow> ConditionType \<Rightarrow> Time \<Rightarrow> Time \<Rightarrow> Build" where
  "markStepAsFailed build conditionType now1 now2 =
     (let build1 = setBuildCondition build
            (NewCondition now1 conditionType ConditionFalse
               (fst (descriptor failureDescriptors conditionType))
               (snd (descriptor failureDescriptors conditionType))
               (Generation build))
      in setBuildCondition build1
           (NewCondition now2 ConditionCompleted ConditionFalse ReasonWorkflowFailed
              ''Build completed with a failure status'' (Generation build1)))"

subsection \<open>Completion\<close>

text \<open>
  The loop of \<^verbatim>\<open>getImageNameFromWorkflow\<close> returns at the first parameter named
  \<^verbatim>\<open>image\<close>, dereferencing its \<open>Value\<close>; a nil \<open>Value\<close> there is a panic.
\<close>

fun imageOfParameters :: "Parameter list \<Rightarrow> panic + string" where
  "imageOfParameters [] = Inr ''''"
| "imageOfParameters (param # params) =
     (if Name param = ''image''
      then (case Value param of None \<Rightarrow> Inl NilPointerDereference | Some v \<Rightarrow> Inr v)
      else imageOfParameters params)"

definition getImageNameFromWorkflow :: "Outputs \<Rightarrow> panic + string" where
  "getImageNameFromWorkflow output = imageOfParameters (Parameters output)"

text \<open>
  \<^verbatim>\<open>argoPushStepOutput\<close> is a pointer that the function dereferences first: \<open>None\<close> is
  nil. The literal \<open>newCondition\<close> of the source names no \<open>ObservedGeneration\<close>, so the
  field has Go's zero value.
\<close>

definition markWorkflowCompleted :: "Build \<Rightarrow> Outputs option \<Rightarrow> Time \<Rightarrow> panic + Build" where
  "markWorkflowCompleted build argoPushStepOutput now =
     (let newCondition =
            \<lparr>Type = ConditionCompleted, Status = ConditionTrue, ObservedGeneration = 0,
             LastTransitionTime = now, Reason = ReasonWorkflowCompleted,
             Message = ''Build completed successfully.''\<rparr>
      in case argoPushStepOutput of
           None \<Rightarrow> Inl NilPointerDereference
         | Some output \<Rightarrow>
             (case getImageNameFromWorkflow output of
                Inl p \<Rightarrow> Inl p
              | Inr image' \<Rightarrow>
                  if image' = ''''
                  then Inr (setBuildCondition build
                         (newCondition\<lparr>Status := ConditionFalse,
                            Reason := ReasonWorkflowFailed,
                            Message := ''Image name is not found in the workflow''\<rparr>))
                  else Inr (setBuildCondition
                         (build\<lparr>Status_build := (Status_build build)
                            \<lparr>ImageStatus := (ImageStatus (Status_build build))
                               \<lparr>Image := image'\<rparr>\<rparr>\<rparr>)
                         newCondition)))"

text \<open>Reading the stored condition of a type off a build.\<close>

definition conditionOf :: "Build \<Rightarrow> ConditionType \<Rightarrow> Condition option" where
  "conditionOf build conditionType =
     FindStatusCondition (Conditions (Status_build build)) conditionType"

subsection \<open>The condition writes of the controller as events\<close>

text \<open>
  The controller writes conditions in response to pipeline events. Each event is one
  of the writes of the source: the four constructors without a step are stored with
  \<^verbatim>\<open>meta.SetStatusCondition\<close>, the others are the functions above. The generation given
  to a constructor is the caller's choice.
\<close>

datatype ConditionWrite =
    SetInitialized Time "64 word"
  | StepSucceeded ConditionType Time
  | StepFailed ConditionType Time Time
  | WorkflowCompleted "Outputs option" Time
  | SetDeployableArtifactCreated Time "64 word"
  | SetAutoDeploymentFailed Time "64 word"
  | SetAutoDeploymentSuccessful Time "64 word"

fun applyWrite :: "Build \<Rightarrow> ConditionWrite \<Rightarrow> panic + Build" where
  "applyWrite build (SetInitialized now g) =
     Inr (setBuildCondition build (NewWorkflowInitializedCondition now g))"
| "applyWrite build (StepSucceeded conditionType now) =
     Inr (markStepAsSucceeded build conditionType now)"
| "applyWrite build (StepFailed conditionType now1 now2) =
     Inr (markStepAsFailed build conditionType now1 now2)"
| "applyWrite build (WorkflowCompleted argoPushStepOutput now) =
     markWorkflowCompleted build argoPushStepOutput now"
| "applyWrite build (SetDeployableArtifactCreated now g) =
     Inr (setBuildCondition build (NewDeployableArtifactCreatedCondition now g))"
| "applyWrite build (SetAutoDeploymentFailed now g) =
     Inr (setBuildCondition build (NewAutoDeploymentFailedCondition now g))"
| "applyWrite build (SetAutoDeploymentSuccessful now g) =
     Inr (setBuildCondition build (NewAutoDeploymentSuccessfulCondition now g))"

text \<open>
  The invariant of the status record, and what it means that a write removed nothing:
  the types stored before are a prefix of the types stored after.
\<close>

definition conditionTypes :: "Build \<Rightarrow> string list" where
  "conditionTypes build = map Type (Conditions (Status_build build))"

definition atMostOnePerType :: "Build \<Rightarrow> bool" where
  "atMostOnePerType build = distinct (conditionTypes build)"

definition nothingRemoved :: "Build \<Rightarrow> Build \<Rightarrow> bool" where
  "nothingRemoved before after = prefix (conditionTypes before) (conditionTypes after)"

section \<open>Argo workflow resource handlers (service account, role binding)\<close>

subsection \<open>Objects, errors and the client\<close>

text \<open>
  A Go \<^verbatim>\<open>map[string]string\<close> and a Go slice can be nil: \<open>None\<close> is nil, \<open>Some\<close> of the
  empty map or list is the empty, non-nil one.
\<close>

type_synonym Labels = "(string \<rightharpoonup> string) option"

record ObjectMeta =
  Name_meta :: string
  Namespace_meta :: string
  Labels :: Labels
  ResourceVersion :: string

record ObjectReference =
  Name_reference :: string

text \<open>\<^verbatim>\<open>corev1.ServiceAccount\<close>, \<^verbatim>\<open>rbacv1.Role\<close> and \<^verbatim>\<open>rbacv1.RoleBinding\<close> embed \<open>ObjectMeta\<close>.\<close>

record ServiceAccount = ObjectMeta +
  Secrets :: "ObjectReference list option"

record PolicyRule =
  Verbs :: "string list option"
  APIGroups :: "string list option"
  Resources :: "string list option"

record Role = ObjectMeta +
  Rules :: "PolicyRule list option"

record Subject =
  Kind_subject :: string
  APIGroup_subject :: string
  Name_subject :: string
  Namespace_subject :: string

record RoleRef =
  Kind_ref :: string
  Name_ref :: string
  APIGroup :: string

record RoleBinding = ObjectMeta +
  Subjects :: "Subject list option"
  RoleRef :: RoleRef

record ObjectKey =
  Namespace_key :: string
  Name_key :: string

text \<open>
  Go errors: a status error of the API server with its reason, or the plain error of
  \<^verbatim>\<open>errors.New\<close>. A Go \<^verbatim>\<open>error\<close> value is an \<open>error option\<close>, \<open>None\<close> being nil.
  \<^verbatim>\<open>apierrors.IsNotFound\<close> holds of the status errors with reason not-found only, and
  not of nil.
\<close>

datatype StatusReason =
  StatusReasonNotFound | StatusReasonAlreadyExists | StatusReasonConflict
  | StatusReasonTimeout | StatusReasonInternalError

datatype error = StatusError StatusReason | errorString string

fun IsNotFound :: "error option \<Rightarrow> bool" where
  "IsNotFound None = False"
| "IsNotFound (Some (StatusError reason)) = (reason = StatusReasonNotFound)"
| "IsNotFound (Some (errorString s)) = False"

text \<open>
  A value of type \<^verbatim>\<open>interface{}\<close> carries its dynamic type: the nil interface, a struct
  value, or a pointer to a struct (\<open>None\<close> is the nil pointer of that type). A type
  assertion succeeds on the one matching dynamic type only.
\<close>

datatype interface_value =
    nil_interface
  | ServiceAccount_value ServiceAccount
  | ServiceAccount_pointer "ServiceAccount option"
  | Role_value Role
  | Role_pointer "Role option"
  | RoleBinding_value RoleBinding
  | RoleBinding_pointer "RoleBinding option"

text \<open>
  The client (\<^verbatim>\<open>client.Client\<close>, an external collaborator) is a parameter: what \<^verbatim>\<open>Get\<close>
  answers for a key (the error, and the object it filled in), and what \<^verbatim>\<open>Create\<close> and
  \<^verbatim>\<open>Update\<close> answer for an object. Every handler operation returns, next to its Go
  result, the list of write requests it sent to the client.
\<close>

datatype Object = ServiceAccount_object ServiceAccount | RoleBinding_object RoleBinding

datatype request = CreateRequest Object | UpdateRequest Object

record Client =
  Get_ServiceAccount :: "ObjectKey \<Rightarrow> error option \<times> ServiceAccount"
  Get_Role :: "ObjectKey \<Rightarrow> error option \<times> Role"
  Create :: "Object \<Rightarrow> error option"
  Update :: "Object \<Rightarrow> error option"

text \<open>
  The helpers of other packages and files that the handlers call, as parameters:
  \<^verbatim>\<open>kubernetes.MakeNamespaceName\<close>, \<^verbatim>\<open>kubernetes.MakeLabels\<close>,
  \<^verbatim>\<open>kubernetes.ExtractManagedLabels\<close> and \<^verbatim>\<open>makeRoleName\<close>. \<open>'ctx\<close> is
  \<^verbatim>\<open>integrations.BuildContext\<close>.
\<close>

record 'ctx Helpers =
  MakeNamespaceName :: "'ctx \<Rightarrow> string"
  MakeLabels :: "'ctx \<Rightarrow> Labels"
  ExtractManagedLabels :: "Labels \<Rightarrow> Labels"
  makeRoleName :: string

text \<open>
  \<^verbatim>\<open>cmp.Equal\<close> on values built from strings, structs, maps and slices is structural
  equality, a nil map or slice differing from an empty one. With
  \<^verbatim>\<open>cmpopts.EquateEmpty\<close> all slices of length zero are equal, nil or not; the option
  changes nothing on a struct of strings.
\<close>

definition cmp_Equal :: "'a \<Rightarrow> 'a \<Rightarrow> bool" where
  "cmp_Equal x y = (x = y)"

definition len :: "'a list option \<Rightarrow> nat" where
  "len xs = (case xs of None \<Rightarrow> 0 | Some l \<Rightarrow> length l)"

definition cmp_Equal_EquateEmpty :: "'a list option \<Rightarrow> 'a list option \<Rightarrow> bool" where
  "cmp_Equal_EquateEmpty xs ys = (if len xs = 0 \<and> len ys = 0 then True else xs = ys)"

subsection \<open>The service account handler\<close>

definition makeServiceAccountName :: string where
  "makeServiceAccountName = ''workflow-sa''"

definition makeServiceAccount :: "'ctx Helpers \<Rightarrow> 'ctx \<Rightarrow> ServiceAccount" where
  "makeServiceAccount k builtCtx =
     \<lparr>Name_meta = makeServiceAccountName,
      Namespace_meta = MakeNamespaceName k builtCtx,
      Labels = MakeLabels k builtCtx,
      ResourceVersion = '''',
      Secrets = None\<rparr>"

definition serviceAccountHandler_shouldUpdate ::
  "'ctx Helpers \<Rightarrow> ServiceAccount \<Rightarrow> ServiceAccount \<Rightarrow> bool" where
  "serviceAccountHandler_shouldUpdate k current new =
     (\<not> cmp_Equal (ExtractManagedLabels k (Labels current))
                  (ExtractManagedLabels k (Labels new)))"

definition serviceAccountHandler_GetCurrentState ::
  "'ctx Helpers \<Rightarrow> Client \<Rightarrow> 'ctx \<Rightarrow> interface_value \<times> error option" where
  "serviceAccountHandler_GetCurrentState k kubernetesClient builtCtx =
     (let name = makeServiceAccountName;
          (err, sa) = Get_ServiceAccount kubernetesClient
                        \<lparr>Namespace_key = MakeNamespaceName k builtCtx, Name_key = name\<rparr>
      in if IsNotFound err then (nil_interface, None)
         else if err \<noteq> None then (nil_interface, err)
         else (ServiceAccount_value sa, None))"

definition serviceAccountHandler_Create ::
  "'ctx Helpers \<Rightarrow> Client \<Rightarrow> 'ctx \<Rightarrow> error option \<times> request list" where
  "serviceAccountHandler_Create k kubernetesClient builtCtx =
     (let sa = makeServiceAccount k builtCtx
      in (Create kubernetesClient (ServiceAccount_object sa),
          [CreateRequest (ServiceAccount_object sa)]))"

text \<open>
  The type assertion to \<^verbatim>\<open>*corev1.ServiceAccount\<close> holds of a pointer to a service
  account only. \<open>shouldUpdate\<close> reads \<^verbatim>\<open>current.Labels\<close>, a panic on the nil pointer.
\<close>

definition serviceAccountHandler_Update ::
  "'ctx Helpers \<Rightarrow> Client \<Rightarrow> 'ctx \<Rightarrow> interface_value
    \<Rightarrow> panic + error option \<times> request list" where
  "serviceAccountHandler_Update k kubernetesClient builtCtx currentState =
     (case currentState of
        ServiceAccount_pointer p \<Rightarrow>
          (let newSA = makeServiceAccount k builtCtx
           in case p of
                None \<Rightarrow> Inl NilPointerDereference
              | Some currentSA \<Rightarrow>
                  if serviceAccountHandler_shouldUpdate k currentSA newSA
                  then (let newSA' = newSA\<lparr>ResourceVersion := ResourceVersion currentSA\<rparr>
                        in Inr (Update kubernetesClient (ServiceAccount_object newSA'),
                                [UpdateRequest (ServiceAccount_object newSA')]))
                  else Inr (None, []))
      | _ \<Rightarrow> Inr (Some (errorString ''failed to cast current state to ServiceAccount''), []))"

definition serviceAccountHandler_Delete ::
  "'ctx Helpers \<Rightarrow> Client \<Rightarrow> 'ctx \<Rightarrow> error option \<times> request list" where
  "serviceAccountHandler_Delete k kubernetesClient builtCtx = (None, [])"

definition serviceAccountHandler_IsRequired :: "'ctx \<Rightarrow> bool" where
  "serviceAccountHandler_IsRequired builtCtx = True"

subsection \<open>The role binding handler\<close>

definition makeRoleBindingName :: string where
  "makeRoleBindingName = ''workflow-role-binding''"

definition makeRoleBinding :: "'ctx Helpers \<Rightarrow> 'ctx \<Rightarrow> RoleBinding" where
  "makeRoleBinding k builtCtx =
     \<lparr>Name_meta = makeRoleBindingName,
      Namespace_meta = MakeNamespaceName k builtCtx,
      Labels = None,
      ResourceVersion = '''',
      Subjects = Some [\<lparr>Kind_subject = ''ServiceAccount'',
                        APIGroup_subject = '''',
                        Name_subject = makeServiceAccountName,
                        Namespace_subject = MakeNamespaceName k builtCtx\<rparr>],
      RoleRef = \<lparr>Kind_ref = ''Role'', Name_ref = makeRoleName k,
                 APIGroup = ''rbac.authorization.k8s.io''\<rparr>\<rparr>"

definition roleBindingHandler_shouldUpdate ::
  "'ctx Helpers \<Rightarrow> RoleBinding \<Rightarrow> RoleBinding \<Rightarrow> bool" where
  "roleBindingHandler_shouldUpdate k current new =
     (if \<not> cmp_Equal (ExtractManagedLabels k (Labels current))
                     (ExtractManagedLabels k (Labels new)) then True
      else if \<not> cmp_Equal_EquateEmpty (Subjects current) (Subjects new) then True
      else if \<not> cmp_Equal (RoleRef current) (RoleRef new) then True
      else False)"

text \<open>The source fetches an \<^verbatim>\<open>rbacv1.Role\<close> under the role binding's name and returns it.\<close>

definition roleBindingHandler_GetCurrentState ::
  "'ctx Helpers \<Rightarrow> Client \<Rightarrow> 'ctx \<Rightarrow> interface_value \<times> error option" where
  "roleBindingHandler_GetCurrentState k kubernetesClient builtCtx =
     (let name = makeRoleBindingName;
          (err, role) = Get_Role kubernetesClient
                          \<lparr>Namespace_key = MakeNamespaceName k builtCtx, Name_key = name\<rparr>
      in if IsNotFound err then (nil_interface, None)
         else if err \<noteq> None then (nil_interface, err)
         else (Role_value role, None))"

definition roleBindingHandler_Create ::
  "'ctx Helpers \<Rightarrow> Client \<Rightarrow> 'ctx \<Rightarrow> error option \<times> request list" where
  "roleBindingHandler_Create k kubernetesClient builtCtx =
     (let roleBinding = makeRoleBinding k builtCtx
      in (Create kubernetesClient (RoleBinding_object roleBinding),
          [CreateRequest (RoleBinding_object roleBinding)]))"

definition roleBindingHandler_Update ::
  "'ctx Helpers \<Rightarrow> Client \<Rightarrow> 'ctx \<Rightarrow> interface_value
    \<Rightarrow> panic + error option \<times> request list" where
  "roleBindingHandler_Update k kubernetesClient builtCtx currentState =
     (case currentState of
        RoleBinding_pointer p \<Rightarrow>
          (let newRoleBinding = makeRoleBinding k builtCtx
           in case p of
                None \<Rightarrow> Inl NilPointerDereference
              | Some currentRoleBinding \<Rightarrow>
                  if roleBindingHandler_shouldUpdate k currentRoleBinding newRoleBinding
                  then (let newRoleBinding' = newRoleBinding
                              \<lparr>ResourceVersion := ResourceVersion currentRoleBinding\<rparr>
                        in Inr (Update kubernetesClient (RoleBinding_object newRoleBinding'),
                                [UpdateRequest (RoleBinding_object newRoleBinding')]))
                  else Inr (None, []))
      | _ \<Rightarrow> Inr (Some (errorString ''failed to cast current state to Role Binding''), []))"

definition roleBindingHandler_Delete ::
  "'ctx Helpers \<Rightarrow> Client \<Rightarrow> 'ctx \<Rightarrow> error option \<times> request list" where
  "roleBindingHandler_Delete k kubernetesClient builtCtx = (None, [])"

definition roleBindingHandler_IsRequired :: "'ctx \<Rightarrow> bool" where
  "roleBindingHandler_IsRequired builtCtx = True"

section \<open>Properties of the condition model\<close>

lemma FindStatusCondition_Set_same:
  "\<exists>c. FindStatusCondition (SetStatusCondition cs new) (Type new) = Some c
      \<and> Status c = Status new \<and> Reason c = Reason new \<and> Message c = Message new
      \<and> ObservedGeneration c = ObservedGeneration new"
  by (induction cs) (auto simp: overwriteCondition_def)

lemma FindStatusCondition_Set_other:
  "t \<noteq> Type new \<Longrightarrow>
     FindStatusCondition (SetStatusCondition cs new) t = FindStatusCondition cs t"
  by (induction cs) (auto simp: overwriteCondition_def)

lemma conditionOf_setBuildCondition_same:
  "\<exists>c. conditionOf (setBuildCondition b new) (Type new) = Some c
      \<and> Status c = Status new \<and> Reason c = Reason new \<and> Message c = Message new
      \<and> ObservedGeneration c = ObservedGeneration new"
  using FindStatusCondition_Set_same [of "Conditions (Status_build b)" new]
  by (simp add: conditionOf_def setBuildCondition_def)

lemma conditionOf_setBuildCondition_other:
  "t \<noteq> Type new \<Longrightarrow> conditionOf (setBuildCondition b new) t = conditionOf b t"
  by (simp add: conditionOf_def setBuildCondition_def FindStatusCondition_Set_other)

lemma Image_setBuildCondition:
  "Image (ImageStatus (Status_build (setBuildCondition b new)))
     = Image (ImageStatus (Status_build b))"
  by (simp add: setBuildCondition_def)

section \<open>The image name of the push step\<close>

text \<open>The loop of \<open>getImageNameFromWorkflow\<close> looks at the first parameter named image only.\<close>

lemma imageOfParameters_find:
  "imageOfParameters ps =
     (case find (\<lambda>p. Name p = ''image'') ps of
        None \<Rightarrow> Inr ''''
      | Some p \<Rightarrow> (case Value p of None \<Rightarrow> Inl NilPointerDereference | Some v \<Rightarrow> Inr v))"
  by (induction ps) auto

lemma find_None_image:
  "(\<forall>p\<in>set ps. Name p \<noteq> ''image'') \<Longrightarrow> find (\<lambda>p. Name p = ''image'') ps = None"
  by (simp add: find_None_iff)

text \<open>
  Claim C10. \<open>getImageNameFromWorkflow\<close> is claimed to return a string for every
  \<open>Outputs\<close>, also when a parameter named image has a nil \<open>Value\<close>. On the output whose
  only parameter is named image and has a nil \<open>Value\<close>, the source dereferences the nil
  pointer: the call panics and returns nothing.
\<close>

theorem getImageNameFromWorkflow_nil_value:
  "getImageNameFromWorkflow \<lparr>Parameters = [\<lparr>Name = ''image'', Value = None\<rparr>]\<rparr>
     = Inl NilPointerDereference"
  by (simp add: getImageNameFromWorkflow_def)

section \<open>Completion of the workflow\<close>

text \<open>
  With the first parameter named image carrying a non-nil, non-empty value \<open>v\<close>,
  \<open>markWorkflowCompleted\<close> returns normally, stores \<open>Completed\<close> with status True and
  records \<open>v\<close> as the image.
\<close>

lemma markWorkflowCompleted_first_image:
  assumes "find (\<lambda>p. Name p = ''image'') (Parameters output) = Some p"
    and "Value p = Some v" and "v \<noteq> ''''"
  shows "\<exists>b' c. markWorkflowCompleted build (Some output) now = Inr b'
           \<and> conditionOf b' ConditionCompleted = Some c \<and> Status c = ConditionTrue
           \<and> Image (ImageStatus (Status_build b')) = v"
proof -
  let ?new = "\<lparr>Type = ConditionCompleted, Status = ConditionTrue, ObservedGeneration = 0,
             LastTransitionTime = now, Reason = ReasonWorkflowCompleted,
             Message = ''Build completed successfully.''\<rparr>"
  let ?b = "build\<lparr>Status_build := (Status_build build)
                            \<lparr>ImageStatus := (ImageStatus (Status_build build))
                               \<lparr>Image := v\<rparr>\<rparr>\<rparr>"
  have img: "getImageNameFromWorkflow output = Inr v"
    using assms by (simp add: getImageNameFromWorkflow_def imageOfParameters_find)
  have res: "markWorkflowCompleted build (Some output) now = Inr (setBuildCondition ?b ?new)"
    using img assms(3) by (simp add: markWorkflowCompleted_def)
  obtain c where "conditionOf (setBuildCondition ?b ?new) (Type ?new) = Some c"
    and "Status c = Status ?new"
    using conditionOf_setBuildCondition_same [of ?b ?new] by blast
  then show ?thesis using res by (simp add: Image_setBuildCondition)
qed

text \<open>
  The pipeline output is a mapping from parameter names to values: no two parameters
  of the list share a name. In such a list the parameter named image is the first one
  of that name.
\<close>

lemma find_image_distinct:
  assumes "distinct (map Name ps)" and "p \<in> set ps" and "Name p = ''image''"
  shows "find (\<lambda>q. Name q = ''image'') ps = Some p"
  using assms
proof (induction ps)
  case Nil
  then show ?case by simp
next
  case (Cons q qs)
  show ?case
  proof (cases "q = p")
    case True
    then show ?thesis using Cons.prems(3) by simp
  next
    case False
    then have mem: "p \<in> set qs" using Cons.prems(2) by simp
    then have "Name p \<in> set (map Name qs)" by simp
    then have "Name q \<noteq> Name p" using Cons.prems(1) by auto
    then have "Name q \<noteq> ''image''" using Cons.prems(3) by simp
    moreover have "find (\<lambda>q. Name q = ''image'') qs = Some p"
      using Cons.IH Cons.prems(1) mem Cons.prems(3) by simp
    ultimately show ?thesis by simp
  qed
qed

text \<open>
  Claim C1. For every build status and every push-step output (a mapping: the names
  of its parameters are distinct) that contains a parameter named image with a
  non-empty value \<open>v\<close>, \<open>markWorkflowCompleted\<close> sets the status of the \<open>Completed\<close>
  condition to True and records the artifact: afterwards the image of the build status
  equals \<open>v\<close>.
\<close>

theorem markWorkflowCompleted_records_image:
  assumes "distinct (map Name (Parameters output))"
    and "p \<in> set (Parameters output)"
    and "Name p = ''image''" and "Value p = Some v" and "v \<noteq> ''''"
  shows "\<exists>b' c. markWorkflowCompleted build (Some output) now = Inr b'
           \<and> conditionOf b' ConditionCompleted = Some c \<and> Status c = ConditionTrue
           \<and> Image (ImageStatus (Status_build b')) = v"
proof -
  have "find (\<lambda>q. Name q = ''image'') (Parameters output) = Some p"
    using find_image_distinct [OF assms(1) assms(2) assms(3)] .
  then show ?thesis
    using assms(4) assms(5) by (rule markWorkflowCompleted_first_image)
qed

theorem markWorkflowCompleted_records_image_witness:
  "distinct (map Name (Parameters
      \<lparr>Parameters = [\<lparr>Name = ''digest'', Value = None\<rparr>,
                     \<lparr>Name = ''image'', Value = Some ''registry/app:sha123''\<rparr>]\<rparr>))
   \<and> \<lparr>Name = ''image'', Value = Some ''registry/app:sha123''\<rparr>
       \<in> set (Parameters
           \<lparr>Parameters = [\<lparr>Name = ''digest'', Value = None\<rparr>,
                          \<lparr>Name = ''image'', Value = Some ''registry/app:sha123''\<rparr>]\<rparr>)
   \<and> Name \<lparr>Name = ''image'', Value = Some ''registry/app:sha123''\<rparr> = ''image''
   \<and> Value \<lparr>Name = ''image'', Value = Some ''registry/app:sha123''\<rparr>
       = Some ''registry/app:sha123''
   \<and> ''registry/app:sha123'' \<noteq> ''''
   \<and> (\<exists>b' c. markWorkflowCompleted
          \<lparr>Generation = 1, Status_build = \<lparr>Conditions = [], ImageStatus = \<lparr>Image = ''''\<rparr>\<rparr>\<rparr>
          (Some \<lparr>Parameters = [\<lparr>Name = ''digest'', Value = None\<rparr>,
                               \<lparr>Name = ''image'', Value = Some ''registry/app:sha123''\<rparr>]\<rparr>) 7
            = Inr b'
        \<and> conditionOf b' ConditionCompleted = Some c \<and> Status c = ConditionTrue
        \<and> Image (ImageStatus (Status_build b')) = ''registry/app:sha123'')"
  using markWorkflowCompleted_records_image
    [of "\<lparr>Parameters = [\<lparr>Name = ''digest'', Value = None\<rparr>,
                        \<lparr>Name = ''image'', Value = Some ''registry/app:sha123''\<rparr>]\<rparr>"
        "\<lparr>Name = ''image'', Value = Some ''registry/app:sha123''\<rparr>"
        "''registry/app:sha123''"
        "\<lparr>Generation = 1, Status_build = \<lparr>Conditions = [], ImageStatus = \<lparr>Image = ''''\<rparr>\<rparr>\<rparr>" 7]
  by simp

text \<open>
  Claim C3, as stated: with no image in the output, \<open>Completed\<close> is set False with the
  reason \<open>WorkflowFailed\<close>. On the empty parameter list the reason stored is the value of
  the constant \<open>ReasonWorkflowFailed\<close>, which is the string \<open>BuildFailed\<close>.
\<close>

theorem markWorkflowCompleted_reason_counterexample:
  "markWorkflowCompleted
        \<lparr>Generation = 1, Status_build = \<lparr>Conditions = [], ImageStatus = \<lparr>Image = ''''\<rparr>\<rparr>\<rparr>
        (Some \<lparr>Parameters = []\<rparr>) 7
      = Inr \<lparr>Generation = 1,
             Status_build = \<lparr>Conditions =
               [\<lparr>Type = ''Completed'', Status = ConditionFalse, ObservedGeneration = 0,
                 LastTransitionTime = 7, Reason = ''BuildFailed'',
                 Message = ''Image name is not found in the workflow''\<rparr>],
               ImageStatus = \<lparr>Image = ''''\<rparr>\<rparr>\<rparr>
   \<and> ''BuildFailed'' \<noteq> ''WorkflowFailed''"
  by (simp add: markWorkflowCompleted_def getImageNameFromWorkflow_def setBuildCondition_def)

text \<open>
  Claim C3, amended: for every build and every push-step output that contains no
  parameter named image, or whose first parameter named image has the empty string as
  its value, \<open>markWorkflowCompleted\<close> returns normally (no error, no panic) with the
  stored \<open>Completed\<close> condition at status False, reason \<open>BuildFailed\<close> (the constant
  \<open>ReasonWorkflowFailed\<close>) and message \<open>Image name is not found in the workflow\<close>; the
  recorded image is left as it was.
\<close>

theorem markWorkflowCompleted_image_missing:
  assumes "(\<forall>p\<in>set (Parameters output). Name p \<noteq> ''image'')
      \<or> (\<exists>p. find (\<lambda>p. Name p = ''image'') (Parameters output) = Some p
              \<and> Value p = Some '''')"
  shows "\<exists>b' c. markWorkflowCompleted build (Some output) now = Inr b'
           \<and> conditionOf b' ConditionCompleted = Some c \<and> Status c = ConditionFalse
           \<and> Reason c = ReasonWorkflowFailed
           \<and> Message c = ''Image name is not found in the workflow''
           \<and> ImageStatus (Status_build b') = ImageStatus (Status_build build)"
proof -
  let ?new = "\<lparr>Type = ConditionCompleted, Status = ConditionFalse, ObservedGeneration = 0,
             LastTransitionTime = now, Reason = ReasonWorkflowFailed,
             Message = ''Image name is not found in the workflow''\<rparr>"
  have img: "getImageNameFromWorkflow output = Inr ''''"
    using assms
    by (auto simp: getImageNameFromWorkflow_def imageOfParameters_find find_None_image)
  have res: "markWorkflowCompleted build (Some output) now = Inr (setBuildCondition build ?new)"
    using img by (simp add: markWorkflowCompleted_def)
  obtain c where "conditionOf (setBuildCondition build ?new) (Type ?new) = Some c"
    and "Status c = Status ?new" and "Reason c = Reason ?new" and "Message c = Message ?new"
    using conditionOf_setBuildCondition_same [of build ?new] by blast
  then show ?thesis using res by (simp add: setBuildCondition_def)
qed

theorem markWorkflowCompleted_image_missing_witness:
  "((\<forall>p\<in>set (Parameters \<lparr>Parameters = [\<lparr>Name = ''digest'', Value = Some ''abc''\<rparr>]\<rparr>).
        Name p \<noteq> ''image'')
      \<or> (\<exists>p. find (\<lambda>p. Name p = ''image'')
                (Parameters \<lparr>Parameters = [\<lparr>Name = ''digest'', Value = Some ''abc''\<rparr>]\<rparr>) = Some p
              \<and> Value p = Some ''''))
   \<and> (\<exists>b' c. markWorkflowCompleted
          \<lparr>Generation = 1, Status_build = \<lparr>Conditions = [], ImageStatus = \<lparr>Image = ''''\<rparr>\<rparr>\<rparr>
          (Some \<lparr>Parameters = [\<lparr>Name = ''digest'', Value = Some ''abc''\<rparr>]\<rparr>) 7 = Inr b'
           \<and> conditionOf b' ConditionCompleted = Some c \<and> Status c = ConditionFalse
           \<and> Reason c = ReasonWorkflowFailed
           \<and> Message c = ''Image name is not found in the workflow''
           \<and> ImageStatus (Status_build b') = \<lparr>Image = ''''\<rparr>)"
  using markWorkflowCompleted_image_missing
    [of "\<lparr>Parameters = [\<lparr>Name = ''digest'', Value = Some ''abc''\<rparr>]\<rparr>"
        "\<lparr>Generation = 1, Status_build = \<lparr>Conditions = [], ImageStatus = \<lparr>Image = ''''\<rparr>\<rparr>\<rparr>" 7]
  by simp

text \<open>
  Whatever the output, the \<open>Completed\<close> condition that \<open>markWorkflowCompleted\<close> stores has
  observed generation zero: the condition it builds names no generation.
\<close>

lemma markWorkflowCompleted_ObservedGeneration:
  assumes "markWorkflowCompleted build argoPushStepOutput now = Inr b'"
  shows "\<exists>c. conditionOf b' ConditionCompleted = Some c \<and> ObservedGeneration c = 0"
proof -
  have *: "\<exists>c. conditionOf (setBuildCondition b new) ConditionCompleted = Some c
             \<and> ObservedGeneration c = 0"
    if "Type new = ConditionCompleted" and "ObservedGeneration new = 0" for b new
    using conditionOf_setBuildCondition_same [of b new] that by auto
  show ?thesis
    using assms
    by (auto simp: markWorkflowCompleted_def Let_def
        split: option.splits sum.splits if_splits intro!: *)
qed

text \<open>
  Claim C4. The scenario of the claim: a build of generation 3 with no conditions yet,
  \<open>Initialized\<close> set, the steps Clone, Build and Push marked as succeeded, then
  \<open>markWorkflowCompleted\<close> with the output \<open>image = foo:1\<close>. The five conditions all have
  status True, and the first four have observed generation 3, but \<open>Completed\<close> has
  observed generation 0, where the claim says 3.
\<close>

theorem end_to_end_generation_3:
  "markWorkflowCompleted
     (markStepAsSucceeded
       (markStepAsSucceeded
         (markStepAsSucceeded
           (setBuildCondition
              \<lparr>Generation = 3, Status_build = \<lparr>Conditions = [], ImageStatus = \<lparr>Image = ''''\<rparr>\<rparr>\<rparr>
              (NewWorkflowInitializedCondition 1 3))
           ConditionCloneSucceeded 2)
         ConditionBuildSucceeded 3)
       ConditionPushSucceeded 4)
     (Some \<lparr>Parameters = [\<lparr>Name = ''image'', Value = Some ''foo:1''\<rparr>]\<rparr>) 5
   = Inr \<lparr>Generation = 3,
          Status_build = \<lparr>Conditions =
            [\<lparr>Type = ''Initialized'', Status = ConditionTrue, ObservedGeneration = 3,
              LastTransitionTime = 1, Reason = ''WorkflowCreated'',
              Message = ''Workflow was created in the cluster.''\<rparr>,
             \<lparr>Type = ''CloneSucceeded'', Status = ConditionTrue, ObservedGeneration = 3,
              LastTransitionTime = 2, Reason = ''CloneSourceCodeSucceeded'',
              Message = ''Source code cloning was successful.''\<rparr>,
             \<lparr>Type = ''BuildSucceeded'', Status = ConditionTrue, ObservedGeneration = 3,
              LastTransitionTime = 3, Reason = ''BuildImageSucceeded'',
              Message = ''Building the source code was successful.''\<rparr>,
             \<lparr>Type = ''PushSucceeded'', Status = ConditionTrue, ObservedGeneration = 3,
              LastTransitionTime = 4, Reason = ''PushImageSucceeded'',
              Message = ''Pushing the built image to the registry was successful.''\<rparr>,
             \<lparr>Type = ''Completed'', Status = ConditionTrue, ObservedGeneration = 0,
              LastTransitionTime = 5, Reason = ''BuildCompleted'',
              Message = ''Build completed successfully.''\<rparr>],
            ImageStatus = \<lparr>Image = ''foo:1''\<rparr>\<rparr>\<rparr>"
  by (simp add: markWorkflowCompleted_def getImageNameFromWorkflow_def setBuildCondition_def
      markStepAsSucceeded_def NewWorkflowInitializedCondition_def NewCondition_def
      descriptor_def successDescriptors_def)

section \<open>Failure of a step\<close>

text \<open>
  Claim C2, as stated: a failed step sets \<open>Completed\<close> to False with the reason
  \<open>WorkflowFailed\<close>. For a failed Build step on a build without conditions, the reason
  stored with \<open>Completed\<close> is the value of the constant \<open>ReasonWorkflowFailed\<close>, which is
  the string \<open>BuildFailed\<close>.
\<close>

theorem markStepAsFailed_reason_counterexample:
  "markStepAsFailed
        \<lparr>Generation = 1, Status_build = \<lparr>Conditions = [], ImageStatus = \<lparr>Image = ''''\<rparr>\<rparr>\<rparr>
        ConditionBuildSucceeded 5 6
      = \<lparr>Generation = 1,
             Status_build = \<lparr>Conditions =
               [\<lparr>Type = ''BuildSucceeded'', Status = ConditionFalse, ObservedGeneration = 1,
                 LastTransitionTime = 5, Reason = ''BuildImageFailed'',
                 Message = ''Building the source code failed.''\<rparr>,
                \<lparr>Type = ''Completed'', Status = ConditionFalse, ObservedGeneration = 1,
                 LastTransitionTime = 6, Reason = ''BuildFailed'',
                 Message = ''Build completed with a failure status''\<rparr>],
               ImageStatus = \<lparr>Image = ''''\<rparr>\<rparr>\<rparr>
   \<and> ''BuildFailed'' \<noteq> ''WorkflowFailed''"
  by (simp add: markStepAsFailed_def setBuildCondition_def NewCondition_def descriptor_def
      failureDescriptors_def)

text \<open>
  Claim C2, amended: for every build and every failed step among \<open>CloneSucceeded\<close>,
  \<open>BuildSucceeded\<close> and \<open>PushSucceeded\<close>, after the one call of \<open>markStepAsFailed\<close> the
  step's condition is stored with status False and that step's failure reason
  (\<open>CloneSourceCodeFailed\<close>, \<open>BuildImageFailed\<close>, \<open>PushImageFailed\<close>), and the \<open>Completed\<close>
  condition is stored with status False and the reason \<open>BuildFailed\<close> (the constant
  \<open>ReasonWorkflowFailed\<close>).
\<close>

theorem markStepAsFailed_step_and_completed:
  assumes "conditionType
             \<in> {ConditionCloneSucceeded, ConditionBuildSucceeded, ConditionPushSucceeded}"
  shows "\<exists>c d. conditionOf (markStepAsFailed build conditionType now1 now2) conditionType
                  = Some c
           \<and> Status c = ConditionFalse
           \<and> Reason c = (if conditionType = ConditionCloneSucceeded then ReasonCloneFailed
                         else if conditionType = ConditionBuildSucceeded then ReasonBuildFailed
                         else ReasonPushFailed)
           \<and> conditionOf (markStepAsFailed build conditionType now1 now2) ConditionCompleted
                  = Some d
           \<and> Status d = ConditionFalse \<and> Reason d = ReasonWorkflowFailed"
proof -
  let ?r = "fst (descriptor failureDescriptors conditionType)"
  let ?m = "snd (descriptor failureDescriptors conditionType)"
  let ?c1 = "NewCondition now1 conditionType ConditionFalse ?r ?m (Generation build)"
  let ?b1 = "setBuildCondition build ?c1"
  let ?c2 = "NewCondition now2 ConditionCompleted ConditionFalse ReasonWorkflowFailed
              ''Build completed with a failure status'' (Generation ?b1)"
  have eq: "markStepAsFailed build conditionType now1 now2 = setBuildCondition ?b1 ?c2"
    by (simp add: markStepAsFailed_def Let_def)
  have t2: "Type ?c2 = ConditionCompleted"
    by (simp add: NewCondition_def)
  have ne: "conditionType \<noteq> Type ?c2" using assms t2 by auto
  have r: "?r = (if conditionType = ConditionCloneSucceeded then ReasonCloneFailed
                         else if conditionType = ConditionBuildSucceeded then ReasonBuildFailed
                         else ReasonPushFailed)"
    using assms by (auto simp: descriptor_def failureDescriptors_def)
  obtain c where c: "conditionOf ?b1 conditionType = Some c" "Status c = ConditionFalse"
      "Reason c = ?r"
    using conditionOf_setBuildCondition_same [of build ?c1] by (auto simp: NewCondition_def)
  obtain d where d: "conditionOf (setBuildCondition ?b1 ?c2) ConditionCompleted = Some d"
     "Status d = ConditionFalse" "Reason d = ReasonWorkflowFailed"
    using conditionOf_setBuildCondition_same [of ?b1 ?c2] by (auto simp: NewCondition_def)
  have c': "conditionOf (setBuildCondition ?b1 ?c2) conditionType = Some c"
    using conditionOf_setBuildCondition_other [OF ne] c(1) by simp
  have rc: "Reason c = (if conditionType = ConditionCloneSucceeded then ReasonCloneFailed
                         else if conditionType = ConditionBuildSucceeded then ReasonBuildFailed
                         else ReasonPushFailed)"
    using c(3) r by simp
  show ?thesis
    unfolding eq
    apply (rule exI [of _ c])
    apply (rule exI [of _ d])
    apply (intro conjI)
         apply (rule c')
        apply (rule c(2))
       apply (rule rc)
      apply (rule d(1))
     apply (rule d(2))
    apply (rule d(3))
    done
qed

theorem markStepAsFailed_step_and_completed_witness:
  "ConditionBuildSucceeded
     \<in> {ConditionCloneSucceeded, ConditionBuildSucceeded, ConditionPushSucceeded}
   \<and> (\<exists>c d. conditionOf (markStepAsFailed
          \<lparr>Generation = 1, Status_build = \<lparr>Conditions = [], ImageStatus = \<lparr>Image = ''''\<rparr>\<rparr>\<rparr>
          ConditionBuildSucceeded 5 6) ConditionBuildSucceeded = Some c
           \<and> Status c = ConditionFalse
           \<and> Reason c = ReasonBuildFailed
           \<and> conditionOf (markStepAsFailed
          \<lparr>Generation = 1, Status_build = \<lparr>Conditions = [], ImageStatus = \<lparr>Image = ''''\<rparr>\<rparr>\<rparr>
          ConditionBuildSucceeded 5 6) ConditionCompleted = Some d
           \<and> Status d = ConditionFalse \<and> Reason d = ReasonWorkflowFailed)"
  using markStepAsFailed_step_and_completed
    [of ConditionBuildSucceeded
        "\<lparr>Generation = 1, Status_build = \<lparr>Conditions = [], ImageStatus = \<lparr>Image = ''''\<rparr>\<rparr>\<rparr>" 5 6]
  by simp

section \<open>Setting a condition twice\<close>

lemma FindStatusCondition_Set_same_status:
  assumes "FindStatusCondition cs (Type new) = Some old" and "Status old = Status new"
  shows "\<exists>c. FindStatusCondition (SetStatusCondition cs new) (Type new) = Some c
           \<and> LastTransitionTime c = LastTransitionTime old
           \<and> Status c = Status new \<and> Reason c = Reason new \<and> Message c = Message new"
  using assms by (induction cs) (auto simp: overwriteCondition_def split: if_splits)

text \<open>
  Claim C6. For every conditions list and every condition type: when the condition is
  set a first time and then a second time with the same status value, the stored
  condition of that type keeps the transition time it had after the first call, and
  its reason and message are those of the second call.
\<close>

theorem SetStatusCondition_twice_same_status:
  assumes "Type second = Type first" and "Status second = Status first"
  shows "\<exists>stored stored'.
           FindStatusCondition (SetStatusCondition cs first) (Type first) = Some stored
         \<and> FindStatusCondition (SetStatusCondition (SetStatusCondition cs first) second)
              (Type first) = Some stored'
         \<and> LastTransitionTime stored' = LastTransitionTime stored
         \<and> Reason stored' = Reason second \<and> Message stored' = Message second"
proof -
  obtain stored
    where s: "FindStatusCondition (SetStatusCondition cs first) (Type first) = Some stored"
      and st: "Status stored = Status first"
    using FindStatusCondition_Set_same [of cs first] by blast
  have "FindStatusCondition (SetStatusCondition cs first) (Type second) = Some stored"
    using s assms(1) by simp
  moreover have "Status stored = Status second" using st assms(2) by simp
  ultimately obtain stored' where
    "FindStatusCondition (SetStatusCondition (SetStatusCondition cs first) second) (Type second)
       = Some stored'"
    "LastTransitionTime stored' = LastTransitionTime stored"
    "Reason stored' = Reason second" "Message stored' = Message second"
    using FindStatusCondition_Set_same_status by blast
  then show ?thesis using s assms(1) by auto
qed

theorem SetStatusCondition_twice_same_status_witness:
  "Type \<lparr>Type = ''Completed'', Status = ConditionFalse, ObservedGeneration = 2,
         LastTransitionTime = 9, Reason = ''BuildFailed'', Message = ''second''\<rparr>
     = Type \<lparr>Type = ''Completed'', Status = ConditionFalse, ObservedGeneration = 2,
         LastTransitionTime = 4, Reason = ''PushImageFailed'', Message = ''first''\<rparr>
   \<and> Status \<lparr>Type = ''Completed'', Status = ConditionFalse, ObservedGeneration = 2,
         LastTransitionTime = 9, Reason = ''BuildFailed'', Message = ''second''\<rparr>
     = Status \<lparr>Type = ''Completed'', Status = ConditionFalse, ObservedGeneration = 2,
         LastTransitionTime = 4, Reason = ''PushImageFailed'', Message = ''first''\<rparr>
   \<and> FindStatusCondition
        (SetStatusCondition
           [\<lparr>Type = ''Completed'', Status = ConditionTrue, ObservedGeneration = 1,
             LastTransitionTime = 1, Reason = ''BuildCompleted'', Message = ''before''\<rparr>]
           \<lparr>Type = ''Completed'', Status = ConditionFalse, ObservedGeneration = 2,
            LastTransitionTime = 4, Reason = ''PushImageFailed'', Message = ''first''\<rparr>)
        ''Completed''
      = Some \<lparr>Type = ''Completed'', Status = ConditionFalse, ObservedGeneration = 2,
            LastTransitionTime = 4, Reason = ''PushImageFailed'', Message = ''first''\<rparr>
   \<and> FindStatusCondition
        (SetStatusCondition (SetStatusCondition
           [\<lparr>Type = ''Completed'', Status = ConditionTrue, ObservedGeneration = 1,
             LastTransitionTime = 1, Reason = ''BuildCompleted'', Message = ''before''\<rparr>]
           \<lparr>Type = ''Completed'', Status = ConditionFalse, ObservedGeneration = 2,
            LastTransitionTime = 4, Reason = ''PushImageFailed'', Message = ''first''\<rparr>)
           \<lparr>Type = ''Completed'', Status = ConditionFalse, ObservedGeneration = 2,
            LastTransitionTime = 9, Reason = ''BuildFailed'', Message = ''second''\<rparr>)
        ''Completed''
      = Some \<lparr>Type = ''Completed'', Status = ConditionFalse, ObservedGeneration = 2,
            LastTransitionTime = 4, Reason = ''BuildFailed'', Message = ''second''\<rparr>"
  using SetStatusCondition_twice_same_status
    [of "\<lparr>Type = ''Completed'', Status = ConditionFalse, ObservedGeneration = 2,
         LastTransitionTime = 9, Reason = ''BuildFailed'', Message = ''second''\<rparr>"
        "\<lparr>Type = ''Completed'', Status = ConditionFalse, ObservedGeneration = 2,
         LastTransitionTime = 4, Reason = ''PushImageFailed'', Message = ''first''\<rparr>"
        "[\<lparr>Type = ''Completed'', Status = ConditionTrue, ObservedGeneration = 1,
             LastTransitionTime = 1, Reason = ''BuildCompleted'', Message = ''before''\<rparr>]"]
  by (simp add: overwriteCondition_def)

section \<open>One condition per type\<close>

lemma map_Type_SetStatusCondition:
  "map Type (SetStatusCondition cs new) =
     (if Type new \<in> set (map Type cs) then map Type cs else map Type cs @ [Type new])"
  by (induction cs) (auto simp: overwriteCondition_def)

lemma conditionTypes_setBuildCondition:
  "conditionTypes (setBuildCondition b new) =
     (if Type new \<in> set (conditionTypes b) then conditionTypes b
      else conditionTypes b @ [Type new])"
  using map_Type_SetStatusCondition [of "Conditions (Status_build b)" new]
  by (simp add: conditionTypes_def setBuildCondition_def)

lemma setBuildCondition_atMostOnePerType:
  "atMostOnePerType b \<Longrightarrow> atMostOnePerType (setBuildCondition b new)"
  by (simp add: atMostOnePerType_def conditionTypes_setBuildCondition)

lemma setBuildCondition_nothingRemoved:
  "nothingRemoved b (setBuildCondition b new)"
  by (simp add: nothingRemoved_def conditionTypes_setBuildCondition)

lemma nothingRemoved_trans:
  "nothingRemoved a b \<Longrightarrow> nothingRemoved b c \<Longrightarrow> nothingRemoved a c"
  unfolding nothingRemoved_def by (rule prefix_order.trans)

lemma conditionTypes_Image_update:
  "conditionTypes (b\<lparr>Status_build := (Status_build b)\<lparr>ImageStatus := i\<rparr>\<rparr>) = conditionTypes b"
  by (simp add: conditionTypes_def)

lemma markStepAsFailed_keeps:
  "(atMostOnePerType b \<longrightarrow> atMostOnePerType (markStepAsFailed b t n1 n2))
   \<and> nothingRemoved b (markStepAsFailed b t n1 n2)"
  unfolding markStepAsFailed_def Let_def
  by (blast intro: setBuildCondition_atMostOnePerType setBuildCondition_nothingRemoved
      nothingRemoved_trans)

lemma markWorkflowCompleted_keeps:
  assumes "markWorkflowCompleted b out n = Inr b'"
  shows "(atMostOnePerType b \<longrightarrow> atMostOnePerType b') \<and> nothingRemoved b b'"
proof -
  let ?b = "\<lambda>i. b\<lparr>Status_build := (Status_build b)\<lparr>ImageStatus := i\<rparr>\<rparr>"
  have 1: "atMostOnePerType (?b i) = atMostOnePerType b" for i
    by (simp add: atMostOnePerType_def conditionTypes_Image_update)
  have 2: "nothingRemoved b (setBuildCondition (?b i) new)" for i new
    using setBuildCondition_nothingRemoved [of "?b i" new]
    by (simp add: nothingRemoved_def conditionTypes_Image_update)
  show ?thesis
    using assms
    by (auto simp: markWorkflowCompleted_def Let_def 1 2 setBuildCondition_atMostOnePerType
        setBuildCondition_nothingRemoved split: option.splits sum.splits if_splits)
qed

text \<open>
  Claim C7. Every condition write of the controller (setting \<open>Initialized\<close>, marking a
  step succeeded or failed, marking the workflow completed, setting the artifact and
  the deployment conditions) that returns keeps the invariant that the conditions of
  the build status hold at most one condition per type, and removes no condition: the
  types stored before the write are still stored after it, in the same places, a new
  type being added at the end.
\<close>

theorem applyWrite_keeps_one_condition_per_type:
  assumes "applyWrite build w = Inr build'"
  shows "(atMostOnePerType build \<longrightarrow> atMostOnePerType build') \<and> nothingRemoved build build'"
proof (cases w)
  case (StepFailed t n1 n2)
  then show ?thesis using assms markStepAsFailed_keeps [of build t n1 n2] by auto
next
  case (WorkflowCompleted out n)
  then show ?thesis using assms markWorkflowCompleted_keeps [of build out n build'] by auto
qed (use assms in \<open>auto simp: markStepAsSucceeded_def setBuildCondition_atMostOnePerType
        setBuildCondition_nothingRemoved\<close>)

theorem applyWrite_keeps_one_condition_per_type_witness:
  "applyWrite
     \<lparr>Generation = 2, Status_build = \<lparr>Conditions =
        [\<lparr>Type = ''Initialized'', Status = ConditionTrue, ObservedGeneration = 2,
          LastTransitionTime = 1, Reason = ''WorkflowCreated'',
          Message = ''Workflow was created in the cluster.''\<rparr>,
         \<lparr>Type = ''Completed'', Status = ConditionTrue, ObservedGeneration = 0,
          LastTransitionTime = 2, Reason = ''BuildCompleted'',
          Message = ''Build completed successfully.''\<rparr>],
        ImageStatus = \<lparr>Image = ''foo:1''\<rparr>\<rparr>\<rparr>
     (StepFailed ConditionBuildSucceeded 5 6)
   = Inr \<lparr>Generation = 2, Status_build = \<lparr>Conditions =
        [\<lparr>Type = ''Initialized'', Status = ConditionTrue, ObservedGeneration = 2,
          LastTransitionTime = 1, Reason = ''WorkflowCreated'',
          Message = ''Workflow was created in the cluster.''\<rparr>,
         \<lparr>Type = ''Completed'', Status = ConditionFalse, ObservedGeneration = 2,
          LastTransitionTime = 6, Reason = ''BuildFailed'',
          Message = ''Build completed with a failure status''\<rparr>,
         \<lparr>Type = ''BuildSucceeded'', Status = ConditionFalse, ObservedGeneration = 2,
          LastTransitionTime = 5, Reason = ''BuildImageFailed'',
          Message = ''Building the source code failed.''\<rparr>],
        ImageStatus = \<lparr>Image = ''foo:1''\<rparr>\<rparr>\<rparr>
   \<and> atMostOnePerType
     \<lparr>Generation = 2, Status_build = \<lparr>Conditions =
        [\<lparr>Type = ''Initialized'', Status = ConditionTrue, ObservedGeneration = 2,
          LastTransitionTime = 1, Reason = ''WorkflowCreated'',
          Message = ''Workflow was created in the cluster.''\<rparr>,
         \<lparr>Type = ''Completed'', Status = ConditionTrue, ObservedGeneration = 0,
          LastTransitionTime = 2, Reason = ''BuildCompleted'',
          Message = ''Build completed successfully.''\<rparr>],
        ImageStatus = \<lparr>Image = ''foo:1''\<rparr>\<rparr>\<rparr>
   \<and> atMostOnePerType
     \<lparr>Generation = 2, Status_build = \<lparr>Conditions =
        [\<lparr>Type = ''Initialized'', Status = ConditionTrue, ObservedGeneration = 2,
          LastTransitionTime = 1, Reason = ''WorkflowCreated'',
          Message = ''Workflow was created in the cluster.''\<rparr>,
         \<lparr>Type = ''Completed'', Status = ConditionFalse, ObservedGeneration = 2,
          LastTransitionTime = 6, Reason = ''BuildFailed'',
          Message = ''Build completed with a failure status''\<rparr>,
         \<lparr>Type = ''BuildSucceeded'', Status = ConditionFalse, ObservedGeneration = 2,
          LastTransitionTime = 5, Reason = ''BuildImageFailed'',
          Message = ''Building the source code failed.''\<rparr>],
        ImageStatus = \<lparr>Image = ''foo:1''\<rparr>\<rparr>\<rparr>
   \<and> nothingRemoved
     \<lparr>Generation = 2, Status_build = \<lparr>Conditions =
        [\<lparr>Type = ''Initialized'', Status = ConditionTrue, ObservedGeneration = 2,
          LastTransitionTime = 1, Reason = ''WorkflowCreated'',
          Message = ''Workflow was created in the cluster.''\<rparr>,
         \<lparr>Type = ''Completed'', Status = ConditionTrue, ObservedGeneration = 0,
          LastTransitionTime = 2, Reason = ''BuildCompleted'',
          Message = ''Build completed successfully.''\<rparr>],
        ImageStatus = \<lparr>Image = ''foo:1''\<rparr>\<rparr>\<rparr>
     \<lparr>Generation = 2, Status_build = \<lparr>Conditions =
        [\<lparr>Type = ''Initialized'', Status = ConditionTrue, ObservedGeneration = 2,
          LastTransitionTime = 1, Reason = ''WorkflowCreated'',
          Message = ''Workflow was created in the cluster.''\<rparr>,
         \<lparr>Type = ''Completed'', Status = ConditionFalse, ObservedGeneration = 2,
          LastTransitionTime = 6, Reason = ''BuildFailed'',
          Message = ''Build completed with a failure status''\<rparr>,
         \<lparr>Type = ''BuildSucceeded'', Status = ConditionFalse, ObservedGeneration = 2,
          LastTransitionTime = 5, Reason = ''BuildImageFailed'',
          Message = ''Building the source code failed.''\<rparr>],
        ImageStatus = \<lparr>Image = ''foo:1''\<rparr>\<rparr>\<rparr>"
proof -
  let ?b = "\<lparr>Generation = 2, Status_build = \<lparr>Conditions =
        [\<lparr>Type = ''Initialized'', Status = ConditionTrue, ObservedGeneration = 2,
          LastTransitionTime = 1, Reason = ''WorkflowCreated'',
          Message = ''Workflow was created in the cluster.''\<rparr>,
         \<lparr>Type = ''Completed'', Status = ConditionTrue, ObservedGeneration = 0,
          LastTransitionTime = 2, Reason = ''BuildCompleted'',
          Message = ''Build completed successfully.''\<rparr>],
        ImageStatus = \<lparr>Image = ''foo:1''\<rparr>\<rparr>\<rparr>"
  let ?b' = "\<lparr>Generation = 2, Status_build = \<lparr>Conditions =
        [\<lparr>Type = ''Initialized'', Status = ConditionTrue, ObservedGeneration = 2,
          LastTransitionTime = 1, Reason = ''WorkflowCreated'',
          Message = ''Workflow was created in the cluster.''\<rparr>,
         \<lparr>Type = ''Completed'', Status = ConditionFalse, ObservedGeneration = 2,
          LastTransitionTime = 6, Reason = ''BuildFailed'',
          Message = ''Build completed with a failure status''\<rparr>,
         \<lparr>Type = ''BuildSucceeded'', Status = ConditionFalse, ObservedGeneration = 2,
          LastTransitionTime = 5, Reason = ''BuildImageFailed'',
          Message = ''Building the source code failed.''\<rparr>],
        ImageStatus = \<lparr>Image = ''foo:1''\<rparr>\<rparr>\<rparr>"
  have run: "applyWrite ?b (StepFailed ConditionBuildSucceeded 5 6) = Inr ?b'"
    by (simp add: markStepAsFailed_def setBuildCondition_def NewCondition_def descriptor_def
        failureDescriptors_def overwriteCondition_def)
  have before: "atMostOnePerType ?b"
    by (simp add: atMostOnePerType_def conditionTypes_def)
  show ?thesis
    using applyWrite_keeps_one_condition_per_type [OF run] run before by simp
qed

section \<open>The resource handlers\<close>

text \<open>
  Claim C8. For every build context and every client: when \<open>Get\<close> reports not-found,
  \<open>GetCurrentState\<close> of the service account handler and of the role binding handler
  returns the nil state and the nil error; when \<open>Get\<close> fails in any other way, it
  returns the nil state and that very error; and when \<open>Get\<close> succeeds it returns no
  error.
\<close>

theorem GetCurrentState_absent_is_not_an_error:
  assumes "err = fst (Get_ServiceAccount client
             \<lparr>Namespace_key = MakeNamespaceName k builtCtx, Name_key = ''workflow-sa''\<rparr>)"
    and "err' = fst (Get_Role client
             \<lparr>Namespace_key = MakeNamespaceName k builtCtx,
              Name_key = ''workflow-role-binding''\<rparr>)"
  shows "(IsNotFound err \<longrightarrow>
            serviceAccountHandler_GetCurrentState k client builtCtx = (nil_interface, None))
       \<and> (err \<noteq> None \<and> \<not> IsNotFound err \<longrightarrow>
            serviceAccountHandler_GetCurrentState k client builtCtx = (nil_interface, err))
       \<and> (err = None \<longrightarrow> snd (serviceAccountHandler_GetCurrentState k client builtCtx) = None)
       \<and> (IsNotFound err' \<longrightarrow>
            roleBindingHandler_GetCurrentState k client builtCtx = (nil_interface, None))
       \<and> (err' \<noteq> None \<and> \<not> IsNotFound err' \<longrightarrow>
            roleBindingHandler_GetCurrentState k client builtCtx = (nil_interface, err'))
       \<and> (err' = None \<longrightarrow> snd (roleBindingHandler_GetCurrentState k client builtCtx) = None)"
  using assms
  by (simp add: serviceAccountHandler_GetCurrentState_def roleBindingHandler_GetCurrentState_def
      makeServiceAccountName_def makeRoleBindingName_def Let_def split: prod.splits)

theorem GetCurrentState_absent_is_not_an_error_witness:
  "serviceAccountHandler_GetCurrentState
     \<lparr>MakeNamespaceName = (\<lambda>c. c), MakeLabels = (\<lambda>c. None), ExtractManagedLabels = (\<lambda>l. l),
      makeRoleName = ''workflow-role''\<rparr>
     \<lparr>Get_ServiceAccount = (\<lambda>key. (Some (StatusError StatusReasonNotFound),
          \<lparr>Name_meta = '''', Namespace_meta = '''', Labels = None, ResourceVersion = '''',
           Secrets = None\<rparr>)),
      Get_Role = (\<lambda>key. (Some (StatusError StatusReasonTimeout),
          \<lparr>Name_meta = '''', Namespace_meta = '''', Labels = None, ResourceVersion = '''',
           Rules = None\<rparr>)),
      Create = (\<lambda>obj. None), Update = (\<lambda>obj. None)\<rparr>
     ''build-ns'' = (nil_interface, None)
   \<and> roleBindingHandler_GetCurrentState
     \<lparr>MakeNamespaceName = (\<lambda>c. c), MakeLabels = (\<lambda>c. None), ExtractManagedLabels = (\<lambda>l. l),
      makeRoleName = ''workflow-role''\<rparr>
     \<lparr>Get_ServiceAccount = (\<lambda>key. (Some (StatusError StatusReasonNotFound),
          \<lparr>Name_meta = '''', Namespace_meta = '''', Labels = None, ResourceVersion = '''',
           Secrets = None\<rparr>)),
      Get_Role = (\<lambda>key. (Some (StatusError StatusReasonTimeout),
          \<lparr>Name_meta = '''', Namespace_meta = '''', Labels = None, ResourceVersion = '''',
           Rules = None\<rparr>)),
      Create = (\<lambda>obj. None), Update = (\<lambda>obj. None)\<rparr>
     ''build-ns'' = (nil_interface, Some (StatusError StatusReasonTimeout))
   \<and> serviceAccountHandler_GetCurrentState
     \<lparr>MakeNamespaceName = (\<lambda>c. c), MakeLabels = (\<lambda>c. None), ExtractManagedLabels = (\<lambda>l. l),
      makeRoleName = ''workflow-role''\<rparr>
     \<lparr>Get_ServiceAccount = (\<lambda>key. (Some (errorString ''connection refused''),
          \<lparr>Name_meta = '''', Namespace_meta = '''', Labels = None, ResourceVersion = '''',
           Secrets = None\<rparr>)),
      Get_Role = (\<lambda>key. (Some (StatusError StatusReasonNotFound),
          \<lparr>Name_meta = '''', Namespace_meta = '''', Labels = None, ResourceVersion = '''',
           Rules = None\<rparr>)),
      Create = (\<lambda>obj. None), Update = (\<lambda>obj. None)\<rparr>
     ''build-ns'' = (nil_interface, Some (errorString ''connection refused''))
   \<and> roleBindingHandler_GetCurrentState
     \<lparr>MakeNamespaceName = (\<lambda>c. c), MakeLabels = (\<lambda>c. None), ExtractManagedLabels = (\<lambda>l. l),
      makeRoleName = ''workflow-role''\<rparr>
     \<lparr>Get_ServiceAccount = (\<lambda>key. (Some (errorString ''connection refused''),
          \<lparr>Name_meta = '''', Namespace_meta = '''', Labels = None, ResourceVersion = '''',
           Secrets = None\<rparr>)),
      Get_Role = (\<lambda>key. (Some (StatusError StatusReasonNotFound),
          \<lparr>Name_meta = '''', Namespace_meta = '''', Labels = None, ResourceVersion = '''',
           Rules = None\<rparr>)),
      Create = (\<lambda>obj. None), Update = (\<lambda>obj. None)\<rparr>
     ''build-ns'' = (nil_interface, None)"
  using GetCurrentState_absent_is_not_an_error
    [OF refl refl, of
     "\<lparr>Get_ServiceAccount = (\<lambda>key. (Some (StatusError StatusReasonNotFound),
          \<lparr>Name_meta = '''', Namespace_meta = '''', Labels = None, ResourceVersion = '''',
           Secrets = None\<rparr>)),
      Get_Role = (\<lambda>key. (Some (StatusError StatusReasonTimeout),
          \<lparr>Name_meta = '''', Namespace_meta = '''', Labels = None, ResourceVersion = '''',
           Rules = None\<rparr>)),
      Create = (\<lambda>obj. None), Update = (\<lambda>obj. None)\<rparr>"
     "\<lparr>MakeNamespaceName = (\<lambda>c. c), MakeLabels = (\<lambda>c. None), ExtractManagedLabels = (\<lambda>l. l),
      makeRoleName = ''workflow-role''\<rparr>" "''build-ns''"]
    GetCurrentState_absent_is_not_an_error
    [OF refl refl, of
     "\<lparr>Get_ServiceAccount = (\<lambda>key. (Some (errorString ''connection refused''),
          \<lparr>Name_meta = '''', Namespace_meta = '''', Labels = None, ResourceVersion = '''',
           Secrets = None\<rparr>)),
      Get_Role = (\<lambda>key. (Some (StatusError StatusReasonNotFound),
          \<lparr>Name_meta = '''', Namespace_meta = '''', Labels = None, ResourceVersion = '''',
           Rules = None\<rparr>)),
      Create = (\<lambda>obj. None), Update = (\<lambda>obj. None)\<rparr>"
     "\<lparr>MakeNamespaceName = (\<lambda>c. c), MakeLabels = (\<lambda>c. None), ExtractManagedLabels = (\<lambda>l. l),
      makeRoleName = ''workflow-role''\<rparr>" "''build-ns''"]
  by simp

text \<open>
  Claim C9. For the service account handler and the role binding handler, and every
  object \<open>d\<close> of the handler's kind, \<open>shouldUpdate d d\<close> is false.
\<close>

theorem shouldUpdate_reflexive:
  "\<not> serviceAccountHandler_shouldUpdate k sa sa \<and> \<not> roleBindingHandler_shouldUpdate k rb rb"
  by (simp add: serviceAccountHandler_shouldUpdate_def roleBindingHandler_shouldUpdate_def
      cmp_Equal_def cmp_Equal_EquateEmpty_def)

text \<open>
  On a pointer to a present object \<open>Update\<close> does what its name says: it sends one
  update request, carrying the resource version of the current object, exactly when
  \<open>shouldUpdate\<close> holds, and otherwise sends nothing and returns nil.
\<close>

lemma serviceAccountHandler_Update_pointer:
  "serviceAccountHandler_Update k client builtCtx (ServiceAccount_pointer (Some current)) =
     Inr (if serviceAccountHandler_shouldUpdate k current (makeServiceAccount k builtCtx)
          then (Update client (ServiceAccount_object
                  ((makeServiceAccount k builtCtx)\<lparr>ResourceVersion := ResourceVersion current\<rparr>)),
                [UpdateRequest (ServiceAccount_object
                  ((makeServiceAccount k builtCtx)\<lparr>ResourceVersion := ResourceVersion current\<rparr>))])
          else (None, []))"
  by (simp add: serviceAccountHandler_Update_def Let_def)

lemma roleBindingHandler_Update_pointer:
  "roleBindingHandler_Update k client builtCtx (RoleBinding_pointer (Some current)) =
     Inr (if roleBindingHandler_shouldUpdate k current (makeRoleBinding k builtCtx)
          then (Update client (RoleBinding_object
                  ((makeRoleBinding k builtCtx)\<lparr>ResourceVersion := ResourceVersion current\<rparr>)),
                [UpdateRequest (RoleBinding_object
                  ((makeRoleBinding k builtCtx)\<lparr>ResourceVersion := ResourceVersion current\<rparr>))])
          else (None, []))"
  by (simp add: roleBindingHandler_Update_def Let_def)

text \<open>
  But \<open>GetCurrentState\<close> never returns such a pointer: it returns the nil interface or a
  struct value (of a role, for the role binding handler). Whatever it returns, \<open>Update\<close>
  answers with its cast error and sends nothing.
\<close>

lemma serviceAccountHandler_Update_of_GetCurrentState:
  assumes "serviceAccountHandler_GetCurrentState k client builtCtx = (currentState, err)"
  shows "serviceAccountHandler_Update k' client' builtCtx' currentState =
           Inr (Some (errorString ''failed to cast current state to ServiceAccount''), [])"
  using assms
  by (auto simp: serviceAccountHandler_GetCurrentState_def serviceAccountHandler_Update_def
      Let_def split: prod.splits if_splits)

lemma roleBindingHandler_Update_of_GetCurrentState:
  assumes "roleBindingHandler_GetCurrentState k client builtCtx = (currentState, err)"
  shows "roleBindingHandler_Update k' client' builtCtx' currentState =
           Inr (Some (errorString ''failed to cast current state to Role Binding''), [])"
  using assms
  by (auto simp: roleBindingHandler_GetCurrentState_def roleBindingHandler_Update_def
      Let_def split: prod.splits if_splits)

text \<open>
  Claim C5. For a state that \<open>GetCurrentState\<close> returned for a present object, \<open>Update\<close> is
  claimed to write only when \<open>shouldUpdate\<close> flags a divergence and otherwise to return
  nil without a write. Here the service account is present in the store with the labels
  the handler wants, so \<open>shouldUpdate\<close> is false; \<open>GetCurrentState\<close> returns the
  service account as a struct value, and \<open>Update\<close> on that state sends no write but
  returns the cast error, not nil.
\<close>

theorem Update_rejects_state_of_GetCurrentState:
  "serviceAccountHandler_GetCurrentState
     \<lparr>MakeNamespaceName = (\<lambda>c. c),
      MakeLabels = (\<lambda>c. Some [''managed-by'' \<mapsto> ''choreo-build-controller'']),
      ExtractManagedLabels = (\<lambda>l. l), makeRoleName = ''workflow-role''\<rparr>
     \<lparr>Get_ServiceAccount = (\<lambda>key. (None,
          \<lparr>Name_meta = ''workflow-sa'', Namespace_meta = ''build-ns'',
           Labels = Some [''managed-by'' \<mapsto> ''choreo-build-controller''],
           ResourceVersion = ''41'', Secrets = None\<rparr>)),
      Get_Role = (\<lambda>key. (Some (StatusError StatusReasonNotFound),
          \<lparr>Name_meta = '''', Namespace_meta = '''', Labels = None, ResourceVersion = '''',
           Rules = None\<rparr>)),
      Create = (\<lambda>obj. None), Update = (\<lambda>obj. None)\<rparr>
     ''build-ns''
    = (ServiceAccount_value
          \<lparr>Name_meta = ''workflow-sa'', Namespace_meta = ''build-ns'',
           Labels = Some [''managed-by'' \<mapsto> ''choreo-build-controller''],
           ResourceVersion = ''41'', Secrets = None\<rparr>, None)
   \<and> serviceAccountHandler_shouldUpdate
       \<lparr>MakeNamespaceName = (\<lambda>c. c),
        MakeLabels = (\<lambda>c. Some [''managed-by'' \<mapsto> ''choreo-build-controller'']),
        ExtractManagedLabels = (\<lambda>l. l), makeRoleName = ''workflow-role''\<rparr>
       \<lparr>Name_meta = ''workflow-sa'', Namespace_meta = ''build-ns'',
        Labels = Some [''managed-by'' \<mapsto> ''choreo-build-controller''],
        ResourceVersion = ''41'', Secrets = None\<rparr>
       (makeServiceAccount
          \<lparr>MakeNamespaceName = (\<lambda>c. c),
           MakeLabels = (\<lambda>c. Some [''managed-by'' \<mapsto> ''choreo-build-controller'']),
           ExtractManagedLabels = (\<lambda>l. l), makeRoleName = ''workflow-role''\<rparr> ''build-ns'')
      = False
   \<and> serviceAccountHandler_Update
     \<lparr>MakeNamespaceName = (\<lambda>c. c),
      MakeLabels = (\<lambda>c. Some [''managed-by'' \<mapsto> ''choreo-build-controller'']),
      ExtractManagedLabels = (\<lambda>l. l), makeRoleName = ''workflow-role''\<rparr>
     \<lparr>Get_ServiceAccount = (\<lambda>key. (None,
          \<lparr>Name_meta = ''workflow-sa'', Namespace_meta = ''build-ns'',
           Labels = Some [''managed-by'' \<mapsto> ''choreo-build-controller''],
           ResourceVersion = ''41'', Secrets = None\<rparr>)),
      Get_Role = (\<lambda>key. (Some (StatusError StatusReasonNotFound),
          \<lparr>Name_meta = '''', Namespace_meta = '''', Labels = None, ResourceVersion = '''',
           Rules = None\<rparr>)),
      Create = (\<lambda>obj. None), Update = (\<lambda>obj. None)\<rparr>
     ''build-ns''
     (ServiceAccount_value
          \<lparr>Name_meta = ''workflow-sa'', Namespace_meta = ''build-ns'',
           Labels = Some [''managed-by'' \<mapsto> ''choreo-build-controller''],
           ResourceVersion = ''41'', Secrets = None\<rparr>)
    = Inr (Some (errorString ''failed to cast current state to ServiceAccount''), [])"
  by (simp add: serviceAccountHandler_GetCurrentState_def serviceAccountHandler_Update_def
      serviceAccountHandler_shouldUpdate_def makeServiceAccount_def cmp_Equal_def)

end
